theory Spec2Isabelle
  imports Complex_Main "HOL-Library.Sublist"
begin

section \<open>Annotation export engine of labelme/app.py\<close>

text \<open>
  The development embeds the three export entry points of \<^verbatim>\<open>MainWindow\<close>
  (\<^verbatim>\<open>onExportPixelMap\<close>, \<^verbatim>\<open>onExportVOC\<close>, \<^verbatim>\<open>onExportCOCO\<close>) together with
  \<^verbatim>\<open>exportDetectionVOC\<close>, \<^verbatim>\<open>exportSegmentationVOC\<close> and \<^verbatim>\<open>getAllAnnotations\<close>.
  Each function starts where the Python has fixed \<^verbatim>\<open>self.output_dir\<close> and
  \<^verbatim>\<open>imageList\<close>; the dialogs before that point belong to the GUI shell.
  Paths are kept relative to \<^verbatim>\<open>self.output_dir\<close>.
\<close>

subsection \<open>Annotations and label files\<close>

text \<open>
  A point is the JSON pair \<^verbatim>\<open>[x, y]\<close>. Coordinates are finite floats; they are only
  compared and copied by the code embedded here, so they are taken as rationals.
\<close>

type_synonym point = "rat \<times> rat"

record annotation =
  label :: string
  shape_type :: string
  points :: "point list"
  group_id :: "int option"

text \<open>
  \<^verbatim>\<open>img.shape\<close> of the decoded pixel array (height, width, channels). The pixel
  values themselves are never inspected by the export code.
\<close>

record image_arr =
  img_height :: nat
  img_width :: nat
  img_depth :: nat

text \<open>
  What \<^verbatim>\<open>LabelFile(self.getLabelFile(imagename))\<close> and \<^verbatim>\<open>utils.img_data_to_arr\<close>
  deliver for one entry of \<^verbatim>\<open>imageList\<close>. Every label file is taken to be readable:
  the \<^verbatim>\<open>LabelFileError\<close> branch of \<^verbatim>\<open>getAllAnnotations\<close> is not part of the model.
\<close>

record labeled_image =
  imagename :: string
  img :: image_arr
  annotations :: "annotation list"

definition getAllAnnotations :: "labeled_image list \<Rightarrow> annotation list" where
  "getAllAnnotations imageList = concat (map annotations imageList)"

subsection \<open>Python dictionaries with insertion order\<close>

type_synonym ('k, 'v) dict = "('k \<times> 'v) list"

fun dict_set :: "('k, 'v) dict \<Rightarrow> 'k \<Rightarrow> 'v \<Rightarrow> ('k, 'v) dict" where
  "dict_set [] k v = [(k, v)]"
| "dict_set ((k', v') # d) k v =
     (if k' = k then (k', v) # d else (k', v') # dict_set d k v)"

definition dict_keys :: "('k, 'v) dict \<Rightarrow> 'k list" where
  "dict_keys d = map fst d"

definition dict_get :: "('k, 'v) dict \<Rightarrow> 'k \<Rightarrow> 'v option" where
  "dict_get d k = map_of d k"

subsection \<open>Class registry\<close>

type_synonym classes = "(string, int) dict"

definition seed_classes :: classes where
  "seed_classes = [(''__ignore__'', -1), (''_background_'', 0)]"

text \<open>
  One turn of the loop
  \<^verbatim>\<open>if class_name not in list(classes.keys()) + ["__ignore__", "_background_"]:
      classes[class_name] = len(classes)-1\<close>.
\<close>

definition register :: "classes \<Rightarrow> annotation \<Rightarrow> classes" where
  "register classes a =
     (let class_name = label a in
      if class_name \<notin> set (dict_keys classes @ [''__ignore__'', ''_background_''])
      then dict_set classes class_name (int (length classes) - 1)
      else classes)"

definition build_classes :: "annotation list \<Rightarrow> classes" where
  "build_classes anns = foldl register seed_classes anns"

text \<open>\<^verbatim>\<open>class_names = list(classes.keys()); del class_names[0]\<close>\<close>

definition class_names_of :: "classes \<Rightarrow> string list" where
  "class_names_of classes = tl (dict_keys classes)"

subsection \<open>The registry as the specification words it\<close>

text \<open>
  Labels in first-encounter order, each kept once.
\<close>

fun first_seen :: "'a list \<Rightarrow> 'a list" where
  "first_seen [] = []"
| "first_seen (x # xs) = x # first_seen (filter (\<lambda>y. y \<noteq> x) xs)"

text \<open>
  The two seeds, then every other label in first-encounter order with the ids 1, 2, 3, ...
\<close>

definition spec_registry :: "string list \<Rightarrow> classes" where
  "spec_registry labels =
     (let new = first_seen (filter (\<lambda>l. l \<noteq> ''__ignore__'' \<and> l \<noteq> ''_background_'') labels)
      in seed_classes @ zip new (map int [1 ..< Suc (length new)]))"

text \<open>The seeds followed by the given labels, numbered from 1.\<close>

definition numbered :: "string list \<Rightarrow> classes" where
  "numbered ls = seed_classes @ zip ls (map int [1 ..< Suc (length ls)])"

subsection \<open>Errors and results\<close>

text \<open>
  The exceptions the embedded code can raise. \<^verbatim>\<open>ValueError\<close> carries the interpreter's
  message, which tells a failed corner unpacking from the failed \<^verbatim>\<open>zip\<close> unpacking.
  \<^verbatim>\<open>UtilsError\<close> stands for whatever \<^verbatim>\<open>utils.shape_to_mask\<close> or
  \<^verbatim>\<open>utils.annotations_to_label\<close> raise.
\<close>

datatype py_error =
    ValueError string
  | KeyError string
  | FileExistsError
  | NotADirectoryError
  | UtilsError string

text \<open>
  How an export slot ends: \<^verbatim>\<open>return False\<close>, falling off the end of the function,
  or an exception that leaves it.
\<close>

datatype outcome = ReturnFalse | ReturnNone | Raised py_error

subsection \<open>Rasters and masks\<close>

text \<open>Arrays of shape (height, width) as lists of rows.\<close>

type_synonym mask = "bool list list"
type_synonym raster = "int list list"

text \<open>\<^verbatim>\<open>masks[instance] | mask\<close> on two arrays of the same shape.\<close>

definition mask_or :: "mask \<Rightarrow> mask \<Rightarrow> mask" where
  "mask_or a b = map2 (\<lambda>ra rb. map2 (\<or>) ra rb) a b"

text \<open>\<^verbatim>\<open>ins[cls == -1] = 0\<close> on two arrays of the same shape.\<close>

definition zero_ignored :: "raster \<Rightarrow> raster \<Rightarrow> raster" where
  "zero_ignored cls ins =
     map2 (\<lambda>crow irow. map2 (\<lambda>c i. if c = -1 then 0 else i) crow irow) cls ins"

text \<open>
  The two helpers of \<^verbatim>\<open>labelme.utils\<close> the exports call are not part of app.py; the
  export functions take them as parameters. Either may raise.
\<close>

type_synonym shape_to_mask = "nat \<times> nat \<Rightarrow> point list \<Rightarrow> string \<Rightarrow> py_error + mask"
type_synonym annotations_to_label =
  "image_arr \<Rightarrow> annotation list \<Rightarrow> classes \<Rightarrow> py_error + (raster \<times> raster)"

subsection \<open>Documents written by the exports\<close>

text \<open>
  One \<^verbatim>\<open><object>\<close> of the VOC XML. The four numbers are the arguments of
  \<^verbatim>\<open>str\<close> in \<^verbatim>\<open>maker.xmin(str(xmin))\<close> and its siblings; the empty
  \<^verbatim>\<open>pose\<close>, \<^verbatim>\<open>truncated\<close> and \<^verbatim>\<open>difficult\<close> elements carry no data.
\<close>

record voc_object =
  obj_name :: string
  bnd_xmin :: rat
  bnd_ymin :: rat
  bnd_xmax :: rat
  bnd_ymax :: rat

record voc_xml =
  xml_filename :: string
  xml_height :: nat
  xml_width :: nat
  xml_depth :: nat
  xml_objects :: "voc_object list"

text \<open>
  Entries of the COCO document. Fields the code fills with a constant
  (\<^verbatim>\<open>license=0\<close>, \<^verbatim>\<open>url=None\<close>, \<^verbatim>\<open>date_captured=None\<close>, \<^verbatim>\<open>iscrowd=0\<close>) and the
  \<^verbatim>\<open>info\<close>, \<^verbatim>\<open>licenses\<close> and \<^verbatim>\<open>type\<close> headers do not depend on the annotations
  and are left out.
\<close>

record coco_image =
  file_name :: string
  height :: nat
  width :: nat
  img_id :: nat

record coco_annotation =
  ann_id :: nat
  image_id :: nat
  category_id :: int
  segmentation :: "rat list list"
  area :: nat
  bbox :: "nat list"

record coco_category =
  category_no :: int
  category_name :: string

record coco_data =
  coco_images :: "coco_image list"
  coco_annotations :: "coco_annotation list"
  coco_categories :: "coco_category list"

text \<open>
  What a written file holds. The renderings of imgviz are kept as the arguments they
  were computed from.
\<close>

datatype file_content =
    ImageFile image_arr
  | BoxViz image_arr "int list" "rat list list" "string list"
  | MaskViz image_arr "int list" "mask list" "string list"
  | LabelViz image_arr raster "string list"
  | XmlFile voc_xml
  | LabelPng raster
  | NpyFile raster
  | JsonFile coco_data

subsection \<open>The output tree\<close>

text \<open>
  Paths are lists of components below \<^verbatim>\<open>self.output_dir\<close>, which is the directory
  picked in the GUI and is not itself an entry.
\<close>

type_synonym path = "string list"

datatype node = Dir | File file_content

type_synonym filesystem = "path \<Rightarrow> node option"

definition isdir :: "filesystem \<Rightarrow> path \<Rightarrow> bool" where
  "isdir fs p = (fs p = Some Dir)"

definition is_file :: "filesystem \<Rightarrow> path \<Rightarrow> bool" where
  "is_file fs p = (case fs p of Some (File c) \<Rightarrow> True | _ \<Rightarrow> False)"

text \<open>\<^verbatim>\<open>shutil.rmtree\<close> of a directory: the entry and everything below it go.\<close>

definition rmtree :: "filesystem \<Rightarrow> path \<Rightarrow> filesystem" where
  "rmtree fs p = (\<lambda>q. if prefix p q then None else fs q)"

text \<open>
  \<^verbatim>\<open>os.makedirs(p)\<close> with \<^verbatim>\<open>exist_ok=False\<close>: the leaf must not exist, no ancestor
  may be a regular file, and missing ancestors are created.
\<close>

definition makedirs :: "filesystem \<Rightarrow> path \<Rightarrow> py_error + filesystem" where
  "makedirs fs p =
     (if fs p \<noteq> None then Inl FileExistsError
      else if list_ex (is_file fs) (tl (prefixes p)) then Inl NotADirectoryError
      else Inr (\<lambda>q. if q \<noteq> [] \<and> prefix q p then Some Dir else fs q))"

fun makedirs_all :: "filesystem \<Rightarrow> path list \<Rightarrow> py_error option \<times> filesystem" where
  "makedirs_all fs [] = (None, fs)"
| "makedirs_all fs (p # ps) =
     (case makedirs fs p of
        Inl e \<Rightarrow> (Some e, fs)
      | Inr fs' \<Rightarrow> makedirs_all fs' ps)"

text \<open>
  Writing a file (\<^verbatim>\<open>imgviz.io.imsave\<close>, \<^verbatim>\<open>utils.lblsave\<close>, \<^verbatim>\<open>np.save\<close>,
  \<^verbatim>\<open>open(..., "w")\<close>) into a directory the export has just created.
\<close>

definition write_file :: "filesystem \<Rightarrow> path \<Rightarrow> file_content \<Rightarrow> filesystem" where
  "write_file fs p c = fs(p \<mapsto> File c)"

text \<open>\<^verbatim>\<open>osp.basename\<close> and the root part of \<^verbatim>\<open>osp.splitext\<close> (POSIX).\<close>

definition basename :: "string \<Rightarrow> string" where
  "basename p = rev (takeWhile (\<lambda>c. c \<noteq> CHR ''/'') (rev p))"

definition splitext_root :: "string \<Rightarrow> string" where
  "splitext_root b =
     (case dropWhile (\<lambda>c. c \<noteq> CHR ''.'') (rev b) of
        [] \<Rightarrow> b
      | dot # stem \<Rightarrow> if list_ex (\<lambda>c. c \<noteq> CHR ''.'') stem then rev stem else b)"

definition base_of :: "string \<Rightarrow> string" where
  "base_of name = splitext_root (basename name)"

subsection \<open>Small Python idioms\<close>

text \<open>\<^verbatim>\<open>a, b = sorted([a, b])\<close>\<close>

definition sorted2 :: "rat \<Rightarrow> rat \<Rightarrow> rat \<times> rat" where
  "sorted2 a b = (if b < a then (b, a) else (a, b))"

text \<open>\<^verbatim>\<open>(x1, y1), (x2, y2) = points\<close>\<close>

fun unpack2 :: "point list \<Rightarrow> py_error + (point \<times> point)" where
  "unpack2 [p, q] = Inr (p, q)"
| "unpack2 [] = Inl (ValueError ''not enough values to unpack (expected 2, got 0)'')"
| "unpack2 [p] = Inl (ValueError ''not enough values to unpack (expected 2, got 1)'')"
| "unpack2 (p # q # r # ps) = Inl (ValueError ''too many values to unpack (expected 2)'')"

text \<open>\<^verbatim>\<open>str(i)\<close> for a natural number.\<close>

fun str_nat :: "nat \<Rightarrow> string" where
  "str_nat n =
     (if n < 10 then [char_of (48 + n)]
      else str_nat (n div 10) @ [char_of (48 + n mod 10)])"

text \<open>How a loop over \<^verbatim>\<open>imageList\<close> threads the output tree and stops at an exception.\<close>

fun for_images ::
  "(labeled_image \<Rightarrow> filesystem \<Rightarrow> py_error option \<times> filesystem) \<Rightarrow>
   labeled_image list \<Rightarrow> filesystem \<Rightarrow> py_error option \<times> filesystem" where
  "for_images body [] fs = (None, fs)"
| "for_images body (im # ims) fs =
     (case body im fs of
        (Some e, fs') \<Rightarrow> (Some e, fs')
      | (None, fs') \<Rightarrow> for_images body ims fs')"

fun finish :: "py_error option \<times> filesystem \<Rightarrow> outcome \<times> filesystem" where
  "finish (Some e, fs) = (Raised e, fs)"
| "finish (None, fs) = (ReturnNone, fs)"

subsection \<open>exportDetectionVOC\<close>

record det_acc =
  bboxes :: "rat list list"
  labels :: "int list"
  captions :: "string list"
  objects :: "voc_object list"

text \<open>The loop \<^verbatim>\<open>for annotation in labelFile.annotations\<close>.\<close>

fun detection_annotations :: "classes \<Rightarrow> annotation list \<Rightarrow> det_acc \<Rightarrow> py_error + det_acc" where
  "detection_annotations classes [] acc = Inr acc"
| "detection_annotations classes (a # rest) acc =
     (let class_name = label a in
      case dict_get classes class_name of
        None \<Rightarrow> Inl (KeyError class_name)
      | Some class_id \<Rightarrow>
          (case unpack2 (points a) of
             Inl e \<Rightarrow> Inl e
           | Inr ((xmin0, ymin0), (xmax0, ymax0)) \<Rightarrow>
               let (xmin, xmax) = sorted2 xmin0 xmax0;
                   (ymin, ymax) = sorted2 ymin0 ymax0
               in detection_annotations classes rest
                    \<lparr>bboxes = bboxes acc @ [[ymin, xmin, ymax, xmax]],
                     labels = labels acc @ [class_id],
                     captions = captions acc @ [class_name],
                     objects = objects acc @
                       [\<lparr>obj_name = label a, bnd_xmin = xmin, bnd_ymin = ymin,
                         bnd_xmax = xmax, bnd_ymax = ymax\<rparr>]\<rparr>))"

text \<open>The body of \<^verbatim>\<open>for imagename in imageList\<close>.\<close>

definition detection_image ::
  "classes \<Rightarrow> labeled_image \<Rightarrow> filesystem \<Rightarrow> py_error option \<times> filesystem" where
  "detection_image classes im fs =
     (let base = base_of (imagename im);
          out_img_file = [''VOC'', ''JPEGImages'', base @ ''.jpg''];
          out_xml_file = [''VOC'', ''Annotations'', base @ ''.xml''];
          out_viz_file = [''VOC'', ''AnnotationsVisualization'', base @ ''.jpg''];
          fs1 = write_file fs out_img_file (ImageFile (img im))
      in case detection_annotations classes (annotations im)
                \<lparr>bboxes = [], labels = [], captions = [], objects = []\<rparr> of
           Inl e \<Rightarrow> (Some e, fs1)
         | Inr acc \<Rightarrow>
             let xml = \<lparr>xml_filename = base @ ''.jpg'',
                        xml_height = img_height (img im),
                        xml_width = img_width (img im),
                        xml_depth = img_depth (img im),
                        xml_objects = objects acc\<rparr>;
                 fs2 = write_file fs1 out_viz_file
                         (BoxViz (img im) (labels acc) (bboxes acc) (captions acc))
             in (None, write_file fs2 out_xml_file (XmlFile xml)))"

definition exportDetectionVOC ::
  "labeled_image list \<Rightarrow> classes \<Rightarrow> filesystem \<Rightarrow> py_error option \<times> filesystem" where
  "exportDetectionVOC imageList classes fs =
     (case makedirs_all fs
             [[''VOC''],
              [''VOC'', ''JPEGImages''],
              [''VOC'', ''Annotations''],
              [''VOC'', ''AnnotationsVisualization'']] of
        (Some e, fs') \<Rightarrow> (Some e, fs')
      | (None, fs') \<Rightarrow> for_images (detection_image classes) imageList fs')"

subsection \<open>exportSegmentationVOC\<close>

definition segmentation_image ::
  "annotations_to_label \<Rightarrow> classes \<Rightarrow> string list \<Rightarrow> labeled_image \<Rightarrow> filesystem \<Rightarrow>
   py_error option \<times> filesystem" where
  "segmentation_image a2l classes class_names im fs =
     (let base = base_of (imagename im);
          out_img_file = [''VOC'', ''JPEGImages'', base @ ''.jpg''];
          out_cls_file = [''VOC'', ''SegmentationClass'', base @ ''.npy''];
          out_clsp_file = [''VOC'', ''SegmentationClassPNG'', base @ ''.png''];
          out_clsv_file = [''VOC'', ''SegmentationClassVisualization'', base @ ''.jpg''];
          out_ins_file = [''VOC'', ''SegmentationObject'', base @ ''.npy''];
          out_insp_file = [''VOC'', ''SegmentationObjectPNG'', base @ ''.png''];
          out_insv_file = [''VOC'', ''SegmentationObjectVisualization'', base @ ''.jpg''];
          fs1 = write_file fs out_img_file (ImageFile (img im))
      in case a2l (img im) (annotations im) classes of
           Inl e \<Rightarrow> (Some e, fs1)
         | Inr (cls, ins0) \<Rightarrow>
             let ins = zero_ignored cls ins0;
                 fs2 = write_file fs1 out_clsp_file (LabelPng cls);
                 fs3 = write_file fs2 out_cls_file (NpyFile cls);
                 fs4 = write_file fs3 out_clsv_file (LabelViz (img im) cls class_names);
                 fs5 = write_file fs4 out_insp_file (LabelPng ins);
                 fs6 = write_file fs5 out_ins_file (NpyFile ins)
             in (case concat ins of
                   [] \<Rightarrow> (Some (ValueError ''max() arg is an empty sequence''), fs6)
                 | v # vs \<Rightarrow>
                     let instance_names = map (\<lambda>i. str_nat (nat i)) [0 .. foldl max v vs]
                     in (None, write_file fs6 out_insv_file
                                 (LabelViz (img im) ins instance_names))))"

definition exportSegmentationVOC ::
  "annotations_to_label \<Rightarrow> labeled_image list \<Rightarrow> classes \<Rightarrow> filesystem \<Rightarrow>
   py_error option \<times> filesystem" where
  "exportSegmentationVOC a2l imageList classes fs =
     (case makedirs_all fs
             [[''VOC''],
              [''VOC'', ''JPEGImages''],
              [''VOC'', ''SegmentationClass''],
              [''VOC'', ''SegmentationClassPNG''],
              [''VOC'', ''SegmentationClassVisualization''],
              [''VOC'', ''SegmentationObject''],
              [''VOC'', ''SegmentationObjectPNG''],
              [''VOC'', ''SegmentationObjectVisualization'']] of
        (Some e, fs') \<Rightarrow> (Some e, fs')
      | (None, fs') \<Rightarrow>
          for_images (segmentation_image a2l classes (class_names_of classes)) imageList fs')"

subsection \<open>onExportVOC\<close>

text \<open>The variable \<^verbatim>\<open>AnnotationType\<close> after the \<^verbatim>\<open>if\<close>/\<^verbatim>\<open>elif\<close> on the scope.\<close>

definition voc_annotation_type :: "annotation list \<Rightarrow> string" where
  "voc_annotation_type anns =
     (if list_all (\<lambda>a. shape_type a = ''rectangle'') anns then ''bbox_detection''
      else if list_ex (\<lambda>a. shape_type a = ''polygon'') anns then ''segmenation''
      else [])"

definition onExportVOC ::
  "annotations_to_label \<Rightarrow> labeled_image list \<Rightarrow> filesystem \<Rightarrow> outcome \<times> filesystem" where
  "onExportVOC a2l imageList fs =
     (let anns = getAllAnnotations imageList;
          AnnotationType = voc_annotation_type anns;
          classes = build_classes anns;
          fs1 = (if isdir fs [''VOC''] then rmtree fs [''VOC''] else fs)
      in if AnnotationType = ''bbox_detection''
         then finish (exportDetectionVOC imageList classes fs1)
         else if AnnotationType = ''segmenation''
         then finish (exportSegmentationVOC a2l imageList classes fs1)
         else (ReturnNone, fs1))"

subsection \<open>onExportPixelMap\<close>

definition pixelmap_image ::
  "annotations_to_label \<Rightarrow> classes \<Rightarrow> labeled_image \<Rightarrow> filesystem \<Rightarrow>
   py_error option \<times> filesystem" where
  "pixelmap_image a2l classes im fs =
     (let base = base_of (imagename im);
          out_img_file = [''PixelMap'', base @ ''.png'']
      in case a2l (img im) (annotations im) classes of
           Inl e \<Rightarrow> (Some e, fs)
         | Inr (cls, ins0) \<Rightarrow>
             let ins = zero_ignored cls ins0
             in (None, write_file fs out_img_file (LabelPng cls)))"

definition onExportPixelMap ::
  "annotations_to_label \<Rightarrow> labeled_image list \<Rightarrow> filesystem \<Rightarrow> outcome \<times> filesystem" where
  "onExportPixelMap a2l imageList fs =
     (let anns = getAllAnnotations imageList in
      if list_all (\<lambda>a. shape_type a = ''rectangle'') anns then (ReturnFalse, fs)
      else
        let classes = build_classes anns;
            fs1 = (if isdir fs [''PixelMap''] then rmtree fs [''PixelMap''] else fs)
        in case makedirs fs1 [''PixelMap''] of
             Inl e \<Rightarrow> (Raised e, fs1)
           | Inr fs2 \<Rightarrow> finish (for_images (pixelmap_image a2l classes) imageList fs2))"

subsection \<open>onExportCOCO\<close>

text \<open>
  \<^verbatim>\<open>group_id\<close> of an instance key: the annotation's own integer, or the value of
  \<^verbatim>\<open>uuid.uuid1()\<close>. Successive calls of \<^verbatim>\<open>uuid1\<close> give pairwise different values,
  none equal to an integer; the n-th call of an export is \<open>Uuid1 n\<close>.
\<close>

datatype group_key = GroupId int | Uuid1 nat

type_synonym instance_key = "string \<times> group_key"

text \<open>
  \<^verbatim>\<open>pycocotools.mask\<close>: \<^verbatim>\<open>area(encode(mask))\<close> counts the set pixels and
  \<^verbatim>\<open>toBbox(encode(mask))\<close> is \<^verbatim>\<open>[x, y, width, height]\<close> of the tight box around them
  (all zero for an empty mask).
\<close>

definition cocomask_area :: "mask \<Rightarrow> nat" where
  "cocomask_area m = length (filter id (concat m))"

definition cocomask_toBbox :: "mask \<Rightarrow> nat list" where
  "cocomask_toBbox m =
     (let ys = filter (\<lambda>y. list_ex id (m ! y)) [0 ..< length m];
          xs = concat (map (\<lambda>row. filter (\<lambda>x. row ! x) [0 ..< length row]) m)
      in case (xs, ys) of
           (x # xs', y # ys') \<Rightarrow>
             let x0 = foldl min x xs'; x1 = foldl max x xs';
                 y0 = foldl min y ys'; y1 = foldl max y ys'
             in [x0, y0, x1 - x0 + 1, y1 - y0 + 1]
         | _ \<Rightarrow> [0, 0, 0, 0])"

text \<open>\<^verbatim>\<open>segmentations[instance].append(points)\<close> on a \<^verbatim>\<open>defaultdict(list)\<close>.\<close>

definition dict_append :: "('k, 'v list) dict \<Rightarrow> 'k \<Rightarrow> 'v \<Rightarrow> ('k, 'v list) dict" where
  "dict_append d k v =
     dict_set d k ((case dict_get d k of None \<Rightarrow> [] | Some vs \<Rightarrow> vs) @ [v])"

text \<open>The value appended to \<^verbatim>\<open>segmentations[instance]\<close>.\<close>

definition segmentation_points :: "annotation \<Rightarrow> py_error + rat list" where
  "segmentation_points a =
     (if shape_type a = ''rectangle'' then
        (case unpack2 (points a) of
           Inl e \<Rightarrow> Inl e
         | Inr ((xa, ya), (xb, yb)) \<Rightarrow>
             let (x1, x2) = sorted2 xa xb;
                 (y1, y2) = sorted2 ya yb
             in Inr [x1, y1, x2, y1, x2, y2, x1, y2])
      else Inr (concat (map (\<lambda>(x, y). [x, y]) (points a))))"

record agg_state =
  masks :: "(instance_key, mask) dict"
  segmentations :: "(instance_key, rat list list) dict"
  uuid_clock :: nat

text \<open>
  \<^verbatim>\<open>if group_id is None: group_id = uuid.uuid1()\<close> followed by
  \<^verbatim>\<open>instance = (label, group_id)\<close>: the key of the annotation and the number of
  \<^verbatim>\<open>uuid1\<close> calls made so far.
\<close>

definition assign_key :: "nat \<Rightarrow> annotation \<Rightarrow> instance_key \<times> nat" where
  "assign_key clk a =
     (case group_id a of
        None \<Rightarrow> ((label a, Uuid1 clk), Suc clk)
      | Some g \<Rightarrow> ((label a, GroupId g), clk))"

text \<open>The loop \<^verbatim>\<open>for annotation in labelFile.annotations\<close> that fills \<^verbatim>\<open>masks\<close> and
  \<^verbatim>\<open>segmentations\<close>.\<close>

fun aggregate ::
  "shape_to_mask \<Rightarrow> image_arr \<Rightarrow> annotation list \<Rightarrow> agg_state \<Rightarrow> py_error + agg_state" where
  "aggregate stm im [] s = Inr s"
| "aggregate stm im (a # rest) s =
     (case stm (img_height im, img_width im) (points a) (shape_type a) of
        Inl e \<Rightarrow> Inl e
      | Inr msk \<Rightarrow>
          let (instance, clock') = assign_key (uuid_clock s) a;
              masks' =
                (case dict_get (masks s) instance of
                   Some m \<Rightarrow> dict_set (masks s) instance (mask_or m msk)
                 | None \<Rightarrow> dict_set (masks s) instance msk)
          in case segmentation_points a of
               Inl e \<Rightarrow> Inl e
             | Inr pts \<Rightarrow>
                 aggregate stm im rest
                   \<lparr>masks = masks',
                    segmentations = dict_append (segmentations s) instance pts,
                    uuid_clock = clock'\<rparr>)"

text \<open>The loop \<^verbatim>\<open>for instance, mask in masks.items()\<close> that appends to
  \<^verbatim>\<open>data["annotations"]\<close>.\<close>

fun emit_annotations ::
  "classes \<Rightarrow> string list \<Rightarrow> nat \<Rightarrow> (instance_key, rat list list) dict \<Rightarrow>
   (instance_key \<times> mask) list \<Rightarrow> coco_annotation list \<Rightarrow> py_error + coco_annotation list" where
  "emit_annotations classes class_names image_no segs [] anns = Inr anns"
| "emit_annotations classes class_names image_no segs ((instance, msk) # rest) anns =
     (let (class_name, gid) = instance in
      if class_name \<notin> set class_names
      then emit_annotations classes class_names image_no segs rest anns
      else
        case dict_get classes class_name of
          None \<Rightarrow> Inl (KeyError class_name)
        | Some class_id \<Rightarrow>
            (case dict_get segs instance of
               None \<Rightarrow> Inl (KeyError class_name)
             | Some seg \<Rightarrow>
                 emit_annotations classes class_names image_no segs rest
                   (anns @
                    [\<lparr>ann_id = length anns, image_id = image_no, category_id = class_id,
                      segmentation = seg, area = cocomask_area msk,
                      bbox = cocomask_toBbox msk\<rparr>])))"

text \<open>
  The list comprehension
  \<^verbatim>\<open>[(classes[cnm], cnm, msk) for (cnm, gid), msk in masks.items() if cnm in class_names]\<close>.
\<close>

fun retained ::
  "classes \<Rightarrow> string list \<Rightarrow> (instance_key \<times> mask) list \<Rightarrow> py_error + (int \<times> string \<times> mask) list" where
  "retained classes class_names [] = Inr []"
| "retained classes class_names (((cnm, gid), msk) # rest) =
     (if cnm \<in> set class_names then
        (case dict_get classes cnm of
           None \<Rightarrow> Inl (KeyError cnm)
         | Some c \<Rightarrow>
             (case retained classes class_names rest of
                Inl e \<Rightarrow> Inl e
              | Inr rs \<Rightarrow> Inr ((c, cnm, msk) # rs)))
      else retained classes class_names rest)"

text \<open>\<^verbatim>\<open>labels, captions, masks = zip(*triples)\<close>: \<^verbatim>\<open>zip\<close> of no argument yields
  nothing, and the unpacking into three names fails.\<close>

definition unzip3 ::
  "(int \<times> string \<times> mask) list \<Rightarrow> py_error + (int list \<times> string list \<times> mask list)" where
  "unzip3 rs =
     (if rs = [] then Inl (ValueError ''not enough values to unpack (expected 3, got 0)'')
      else Inr (map fst rs, map (\<lambda>r. fst (snd r)) rs, map (\<lambda>r. snd (snd r)) rs))"

record coco_state =
  out_tree :: filesystem
  data :: coco_data
  clock :: nat

text \<open>The body of \<^verbatim>\<open>for image_id, imagename in enumerate(imageList)\<close>.\<close>

definition coco_image_step ::
  "shape_to_mask \<Rightarrow> classes \<Rightarrow> string list \<Rightarrow> nat \<Rightarrow> labeled_image \<Rightarrow> coco_state \<Rightarrow>
   py_error option \<times> coco_state" where
  "coco_image_step stm classes class_names image_no im s =
     (let base = base_of (imagename im);
          out_ann_file = [''COCO'', ''annotations.json''];
          out_img_file = [''COCO'', ''JPEGImages'', base @ ''.jpg''];
          out_viz_file = [''COCO'', ''Visualization'', base @ ''.jpg''];
          fs1 = write_file (out_tree s) out_img_file (ImageFile (img im));
          data1 = (data s)\<lparr>coco_images := coco_images (data s) @
                    [\<lparr>file_name = ''JPEGImages/'' @ base @ ''.jpg'',
                      height = img_height (img im),
                      width = img_width (img im),
                      img_id = image_no\<rparr>]\<rparr>;
          s1 = s\<lparr>out_tree := fs1, data := data1\<rparr>
      in case aggregate stm (img im) (annotations im)
                \<lparr>masks = [], segmentations = [], uuid_clock = clock s\<rparr> of
           Inl e \<Rightarrow> (Some e, s1)
         | Inr agg \<Rightarrow>
             let s2 = s1\<lparr>clock := uuid_clock agg\<rparr> in
             (case emit_annotations classes class_names image_no (segmentations agg)
                     (masks agg) (coco_annotations data1) of
                Inl e \<Rightarrow> (Some e, s2)
              | Inr anns \<Rightarrow>
                  let data2 = data1\<lparr>coco_annotations := anns\<rparr>;
                      s3 = s2\<lparr>data := data2\<rparr>
                  in (case retained classes class_names (masks agg) of
                        Inl e \<Rightarrow> (Some e, s3)
                      | Inr rs \<Rightarrow>
                          (case unzip3 rs of
                             Inl e \<Rightarrow> (Some e, s3)
                           | Inr (lbls, caps, msks) \<Rightarrow>
                               let fs2 = write_file fs1 out_viz_file
                                           (MaskViz (img im) lbls msks caps);
                                   fs3 = write_file fs2 out_ann_file (JsonFile data2)
                               in (None, s3\<lparr>out_tree := fs3\<rparr>)))))"

fun coco_images_loop ::
  "shape_to_mask \<Rightarrow> classes \<Rightarrow> string list \<Rightarrow> nat \<Rightarrow> labeled_image list \<Rightarrow> coco_state \<Rightarrow>
   py_error option \<times> coco_state" where
  "coco_images_loop stm classes class_names image_no [] s = (None, s)"
| "coco_images_loop stm classes class_names image_no (im # ims) s =
     (case coco_image_step stm classes class_names image_no im s of
        (Some e, s') \<Rightarrow> (Some e, s')
      | (None, s') \<Rightarrow> coco_images_loop stm classes class_names (Suc image_no) ims s')"

definition onExportCOCO ::
  "shape_to_mask \<Rightarrow> labeled_image list \<Rightarrow> filesystem \<Rightarrow> outcome \<times> filesystem" where
  "onExportCOCO stm imageList fs =
     (let anns = getAllAnnotations imageList in
      if list_all (\<lambda>a. shape_type a = ''rectangle'') anns then (ReturnFalse, fs)
      else
        let classes = build_classes anns;
            class_names = class_names_of classes;
            fs1 = (if isdir fs [''COCO''] then rmtree fs [''COCO''] else fs)
        in case makedirs_all fs1
                  [[''COCO''], [''COCO'', ''JPEGImages''], [''COCO'', ''Visualization'']] of
             (Some e, fs2) \<Rightarrow> (Raised e, fs2)
           | (None, fs2) \<Rightarrow>
               (case coco_images_loop stm classes class_names 0 imageList
                       \<lparr>out_tree = fs2,
                        data = \<lparr>coco_images = [], coco_annotations = [], coco_categories = []\<rparr>,
                        clock = 0\<rparr> of
                  (Some e, s) \<Rightarrow> (Raised e, out_tree s)
                | (None, s) \<Rightarrow> (ReturnNone, out_tree s)))"

subsection \<open>A rasteriser for concrete runs\<close>

text \<open>
  Modelled from the spec: \<^verbatim>\<open>utils.shape_to_mask\<close> is called by \<^verbatim>\<open>onExportCOCO\<close> and is
  not part of app.py. Section 4.2 of the specification: a rectangle fills the inclusive
  axis-aligned box between its two corners, a circle the disk around its first point
  through its second, a polygon or linestrip the pixels whose centres lie inside the
  closed ring of its points (even-odd rule); points off the canvas are clipped; line and
  point shapes are rejected by the segmentation encoders.
\<close>

definition grid :: "nat \<Rightarrow> nat \<Rightarrow> (nat \<Rightarrow> nat \<Rightarrow> bool) \<Rightarrow> mask" where
  "grid h w covers = map (\<lambda>y. map (\<lambda>x. covers x y) [0 ..< w]) [0 ..< h]"

definition in_box :: "point \<Rightarrow> point \<Rightarrow> nat \<Rightarrow> nat \<Rightarrow> bool" where
  "in_box p q x y =
     (min (fst p) (fst q) \<le> of_nat x \<and> of_nat x \<le> max (fst p) (fst q) \<and>
      min (snd p) (snd q) \<le> of_nat y \<and> of_nat y \<le> max (snd p) (snd q))"

definition in_disk :: "point \<Rightarrow> point \<Rightarrow> nat \<Rightarrow> nat \<Rightarrow> bool" where
  "in_disk c p x y =
     ((of_nat x - fst c)\<^sup>2 + (of_nat y - snd c)\<^sup>2 \<le> (fst p - fst c)\<^sup>2 + (snd p - snd c)\<^sup>2)"

definition crosses :: "point \<Rightarrow> point \<times> point \<Rightarrow> bool" where
  "crosses c e =
     (let (cx, cy) = c; ((xi, yi), (xj, yj)) = e
      in (cy < yi) \<noteq> (cy < yj) \<and> cx < (xj - xi) * (cy - yi) / (yj - yi) + xi)"

definition in_ring :: "point list \<Rightarrow> nat \<Rightarrow> nat \<Rightarrow> bool" where
  "in_ring ps x y =
     odd (length (filter (crosses (of_nat x + 1 / 2, of_nat y + 1 / 2)) (zip ps (rotate1 ps))))"

definition spec_shape_to_mask :: shape_to_mask where
  "spec_shape_to_mask img_shape ps st =
     (let (h, w) = img_shape in
      if st = ''rectangle'' then
        (case ps of
           [p, q] \<Rightarrow> Inr (grid h w (in_box p q))
         | _ \<Rightarrow> Inl (UtilsError ''rectangle needs two points''))
      else if st = ''circle'' then
        (case ps of
           [c, p] \<Rightarrow> Inr (grid h w (in_disk c p))
         | _ \<Rightarrow> Inl (UtilsError ''circle needs two points''))
      else if st = ''polygon'' \<or> st = ''linestrip'' then Inr (grid h w (in_ring ps))
      else Inl (UtilsError ''shape type not valid for a segmentation encoder''))"

subsection \<open>A label painter for concrete runs\<close>

text \<open>
  Modelled from the spec: \<^verbatim>\<open>utils.annotations_to_label\<close> is called by
  \<^verbatim>\<open>exportSegmentationVOC\<close> and \<^verbatim>\<open>onExportPixelMap\<close> and is not part of app.py.
  Section 4.4 of the specification: the class raster is painted by iterating the
  annotations in their original order, each later annotation overwriting earlier ones at
  overlapping pixels; the instance raster holds per-image instance numbers, 0 for the
  background. Section 3: an instance is (label, group id), a shape without group id being
  an instance of its own.
\<close>

definition fill :: "raster \<Rightarrow> mask \<Rightarrow> int \<Rightarrow> raster" where
  "fill r m v = map2 (\<lambda>rrow mrow. map2 (\<lambda>old b. if b then v else old) rrow mrow) r m"

fun paint ::
  "classes \<Rightarrow> nat \<times> nat \<Rightarrow> annotation list \<Rightarrow> instance_key list \<Rightarrow> nat \<Rightarrow>
   raster \<times> raster \<Rightarrow> py_error + (raster \<times> raster)" where
  "paint classes shp [] seen clk (cls, ins) = Inr (cls, ins)"
| "paint classes shp (a # rest) seen clk (cls, ins) =
     (let (key, clk') = assign_key clk a;
          seen' = (if key \<in> set seen then seen else seen @ [key]);
          ins_id = int (length (takeWhile (\<lambda>k. k \<noteq> key) seen')) + 1
      in case dict_get classes (label a) of
           None \<Rightarrow> Inl (KeyError (label a))
         | Some cls_id \<Rightarrow>
             (case spec_shape_to_mask shp (points a) (shape_type a) of
                Inl e \<Rightarrow> Inl e
              | Inr m \<Rightarrow> paint classes shp rest seen' clk' (fill cls m cls_id, fill ins m ins_id)))"

definition spec_annotations_to_label :: annotations_to_label where
  "spec_annotations_to_label im anns classes =
     (let h = img_height im; w = img_width im;
          blank = replicate h (replicate w 0)
      in paint classes (h, w) anns [] 0 (blank, blank))"

subsection \<open>Concrete annotations and images\<close>

text \<open>Small inputs on which the properties below are run.\<close>

definition shape :: "string \<Rightarrow> string \<Rightarrow> point list \<Rightarrow> annotation" where
  "shape l st ps = \<lparr>label = l, shape_type = st, points = ps, group_id = None\<rparr>"

definition picture :: "string \<Rightarrow> nat \<Rightarrow> nat \<Rightarrow> annotation list \<Rightarrow> labeled_image" where
  "picture name h w anns =
     \<lparr>imagename = name,
      img = \<lparr>img_height = h, img_width = w, img_depth = 3\<rparr>,
      annotations = anns\<rparr>"

definition street_scene :: "annotation list" where
  "street_scene =
     [shape ''car'' ''polygon'' [(1, 1), (4, 1), (4, 3)],
      shape ''__ignore__'' ''polygon'' [(0, 0), (2, 0), (2, 2)],
      shape ''tree'' ''circle'' [(3, 3), (4, 3)],
      shape ''car'' ''rectangle'' [(0, 0), (1, 1)],
      shape ''_background_'' ''polygon'' [(0, 0), (5, 0), (5, 5)],
      shape ''dog'' ''polygon'' [(2, 2), (3, 2), (3, 3)]]"

definition street_scene_boxes :: "annotation list" where
  "street_scene_boxes = map (\<lambda>a. a\<lparr>shape_type := ''rectangle'', points := take 2 (points a)\<rparr>) street_scene"

definition two_boxes :: "labeled_image list" where
  "two_boxes =
     [picture ''/data/set/img1.png'' 4 4
        [shape ''car'' ''rectangle'' [(0, 0), (1, 1)],
         shape ''dog'' ''rectangle'' [(3, 3), (2, 1)]]]"

definition box_and_polygon :: "labeled_image list" where
  "box_and_polygon =
     [picture ''/data/set/img1.png'' 4 4
        [shape ''car'' ''rectangle'' [(0, 0), (1, 1)],
         shape ''dog'' ''polygon'' [(1, 1), (4, 1), (4, 4)]]]"

definition circles_only :: "labeled_image list" where
  "circles_only =
     [picture ''/data/set/img1.png'' 4 4 [shape ''ball'' ''circle'' [(1, 1), (2, 1)]]]"


text \<open>An output directory that holds the result of an earlier VOC detection export.\<close>

definition earlier_voc_export :: filesystem where
  "earlier_voc_export =
     [[''VOC''] \<mapsto> Dir,
      [''VOC'', ''JPEGImages''] \<mapsto> Dir,
      [''VOC'', ''Annotations''] \<mapsto> Dir,
      [''VOC'', ''AnnotationsVisualization''] \<mapsto> Dir,
      [''VOC'', ''Annotations'', ''old.xml''] \<mapsto>
        File (XmlFile \<lparr>xml_filename = ''old.jpg'', xml_height = 4, xml_width = 4,
                         xml_depth = 3, xml_objects = []\<rparr>)]"

subsection \<open>Conditions on the output directory\<close>



subsection \<open>Swapping the corners of rectangles\<close>



subsection \<open>The synthetic image of the COCO round trip\<close>

definition synthetic_car :: "labeled_image list" where
  "synthetic_car =
     [picture ''synthetic.png'' 100 100 [shape ''car'' ''rectangle'' [(10, 10), (50, 50)]]]"

definition empty_output_dir :: filesystem where
  "empty_output_dir = (\<lambda>p. None)"

subsection \<open>Instances and their masks, as the specification words them\<close>

text \<open>The instance key of every annotation of an image, in stored order.\<close>

fun instance_keys :: "nat \<Rightarrow> annotation list \<Rightarrow> instance_key list" where
  "instance_keys clk [] = []"
| "instance_keys clk (a # rest) =
     fst (assign_key clk a) # instance_keys (snd (assign_key clk a)) rest"

text \<open>The masks of the shapes that carry the instance key \<open>k\<close>, in stored order.\<close>

fun constituents ::
  "shape_to_mask \<Rightarrow> nat \<times> nat \<Rightarrow> nat \<Rightarrow> annotation list \<Rightarrow> instance_key \<Rightarrow> mask list" where
  "constituents stm shp clk [] k = []"
| "constituents stm shp clk (a # rest) k =
     (if fst (assign_key clk a) = k
      then (case stm shp (points a) (shape_type a) of Inr m \<Rightarrow> [m] | Inl e \<Rightarrow> [])
      else [])
     @ constituents stm shp (snd (assign_key clk a)) rest k"

text \<open>
  What \<^verbatim>\<open>masks[instance]\<close> holds after further shape masks were merged into it by
  \<^verbatim>\<open>masks[instance] | mask\<close> (or stored, when the key was new).
\<close>

definition or_into :: "mask option \<Rightarrow> mask list \<Rightarrow> mask option" where
  "or_into start ms =
     foldl (\<lambda>acc m. case acc of None \<Rightarrow> Some m | Some a \<Rightarrow> Some (mask_or a m)) start ms"

text \<open>Reading one pixel of a mask; nothing is set outside the array.\<close>

definition pixel :: "mask \<Rightarrow> nat \<Rightarrow> nat \<Rightarrow> bool" where
  "pixel m x y = (y < length m \<and> x < length (m ! y) \<and> m ! y ! x)"

definition has_shape :: "nat \<Rightarrow> nat \<Rightarrow> 'a list list \<Rightarrow> bool" where
  "has_shape h w m = (length m = h \<and> list_all (\<lambda>row. length row = w) m)"

text \<open>
  The final mask of the instance \<open>k\<close> as the instance union law states it: the pixel-wise
  OR of the masks of all shapes with key \<open>k\<close>, minus every pixel covered by a shape
  whose class id is -1.
\<close>

definition covered_by_ignored ::
  "shape_to_mask \<Rightarrow> classes \<Rightarrow> nat \<times> nat \<Rightarrow> annotation list \<Rightarrow> nat \<Rightarrow> nat \<Rightarrow> bool" where
  "covered_by_ignored stm classes shp anns x y =
     list_ex (\<lambda>a. dict_get classes (label a) = Some (-1) \<and>
                  (case stm shp (points a) (shape_type a) of
                     Inr m \<Rightarrow> pixel m x y
                   | Inl e \<Rightarrow> False)) anns"

definition union_law_mask ::
  "shape_to_mask \<Rightarrow> classes \<Rightarrow> image_arr \<Rightarrow> nat \<Rightarrow> annotation list \<Rightarrow> instance_key \<Rightarrow> mask" where
  "union_law_mask stm classes im clk anns k =
     (let shp = (img_height im, img_width im) in
      grid (img_height im) (img_width im)
        (\<lambda>x y. list_ex (\<lambda>m. pixel m x y) (constituents stm shp clk anns k) \<and>
               \<not> covered_by_ignored stm classes shp anns x y))"

subsection \<open>Conditions under which an image passes the COCO loop\<close>





text \<open>The document in \<^verbatim>\<open>COCO/annotations.json\<close>, if there is one.\<close>

definition written_json :: "filesystem \<Rightarrow> coco_data option" where
  "written_json fs =
     (case fs [''COCO'', ''annotations.json''] of
        Some (File (JsonFile d)) \<Rightarrow> Some d
      | _ \<Rightarrow> None)"

subsection \<open>Concrete scopes for the COCO export\<close>

definition car_and_dog :: "labeled_image list" where
  "car_and_dog =
     [picture ''/data/set/img1.png'' 4 4
        [shape ''car'' ''polygon'' [(0, 0), (2, 0), (2, 2), (0, 2)],
         shape ''dog'' ''circle'' [(3, 3), (3, 2)]]]"


definition car_under_ignore :: labeled_image where
  "car_under_ignore =
     picture ''/data/set/img1.png'' 2 2
       [shape ''car'' ''circle'' [(0, 0), (1, 0)],
        shape ''__ignore__'' ''rectangle'' [(0, 0), (0, 0)]]"

section \<open>Verified properties\<close>

subsection \<open>Class registry\<close>

lemma dict_set_fresh: "k \<notin> fst ` set d \<Longrightarrow> dict_set d k v = d @ [(k, v)]"
  by (induction d) auto

lemma numbered_snoc: "numbered (ls @ [l]) = numbered ls @ [(l, int (length ls) + 1)]"
proof -
  have "[1 ..< Suc (Suc (length ls))] = [1 ..< Suc (length ls)] @ [Suc (length ls)]"
    by (rule upt_Suc_append) simp
  then have "zip (ls @ [l]) (map int [1 ..< Suc (length (ls @ [l]))])
      = zip ls (map int [1 ..< Suc (length ls)]) @ [(l, int (length ls) + 1)]"
    by (simp del: upt_Suc)
  then show ?thesis by (simp add: numbered_def del: upt_Suc)
qed

lemma keys_numbered: "dict_keys (numbered ls) = ''__ignore__'' # ''_background_'' # ls"
  by (simp add: numbered_def dict_keys_def seed_classes_def del: upt_Suc)

lemma length_numbered: "length (numbered ls) = length ls + 2"
  by (simp add: numbered_def seed_classes_def del: upt_Suc)

lemma register_numbered:
  "register (numbered ls) a =
     (if label a \<in> set ls \<or> label a = ''__ignore__'' \<or> label a = ''_background_''
      then numbered ls else numbered (ls @ [label a]))"
proof -
  have "fst ` set (numbered ls) = set (dict_keys (numbered ls))"
    by (simp add: dict_keys_def)
  then show ?thesis
    by (auto simp: register_def Let_def keys_numbered length_numbered numbered_snoc dict_set_fresh)
qed

lemma foldl_register_numbered:
  "foldl register (numbered ls) anns =
     numbered (ls @ first_seen (filter (\<lambda>l. l \<notin> set ls \<and> l \<noteq> ''__ignore__'' \<and> l \<noteq> ''_background_'')
        (map label anns)))"
proof (induction anns arbitrary: ls)
  case Nil
  then show ?case by simp
next
  case (Cons a anns)
  show ?case
  proof (cases "label a \<in> set ls \<or> label a = ''__ignore__'' \<or> label a = ''_background_''")
    case True
    then show ?thesis using Cons.IH [of ls] by (auto simp: register_numbered)
  next
    case False
    have "filter (\<lambda>l. l \<notin> set ls \<and> l \<noteq> ''__ignore__'' \<and> l \<noteq> ''_background_'') (map label (a # anns))
       = label a # filter (\<lambda>l. l \<notin> set ls \<and> l \<noteq> ''__ignore__'' \<and> l \<noteq> ''_background_'') (map label anns)"
      using False by simp
    moreover have "filter (\<lambda>y. y \<noteq> label a) (filter (\<lambda>l. l \<notin> set ls \<and> l \<noteq> ''__ignore__'' \<and> l \<noteq> ''_background_'') (map label anns))
      = filter (\<lambda>l. l \<notin> set (ls @ [label a]) \<and> l \<noteq> ''__ignore__'' \<and> l \<noteq> ''_background_'') (map label anns)"
      by (auto intro: filter_cong)
    ultimately have "first_seen (filter (\<lambda>l. l \<notin> set ls \<and> l \<noteq> ''__ignore__'' \<and> l \<noteq> ''_background_'') (map label (a # anns)))
       = label a # first_seen (filter (\<lambda>l. l \<notin> set (ls @ [label a]) \<and> l \<noteq> ''__ignore__'' \<and> l \<noteq> ''_background_'') (map label anns))"
      by (simp only: first_seen.simps)
    with False show ?thesis using Cons.IH [of "ls @ [label a]"]
      by (simp add: register_numbered)
  qed
qed

lemma build_classes_spec: "build_classes anns = spec_registry (map label anns)"
  using foldl_register_numbered [of "[]" anns]
  by (simp add: build_classes_def spec_registry_def numbered_def Let_def)

lemma register_prefix: "prefix c (register c a)"
proof -
  have "fst ` set c = set (dict_keys c)" by (simp add: dict_keys_def)
  then show ?thesis by (auto simp: register_def Let_def dict_set_fresh)
qed

lemma foldl_register_prefix: "prefix c (foldl register c anns)"
proof (induction anns arbitrary: c)
  case Nil
  then show ?case by simp
next
  case (Cons a anns)
  have "prefix c (register c a)" by (rule register_prefix)
  also have "prefix (register c a) (foldl register (register c a) anns)" by (rule Cons.IH)
  finally show ?case by simp
qed

lemma build_classes_prefix: "prefix (build_classes anns) (build_classes (anns @ later))"
  by (simp add: build_classes_def foldl_register_prefix)

text \<open>
  C4. The registry every export builds is the fold the specification describes. It
  starts from \<^verbatim>\<open>{"__ignore__": -1, "_background_": 0}\<close>; the annotations are scanned in
  image-list order and, within an image, in stored order; each label not yet present is
  appended with the next id 1, 2, 3, ... in first-encounter order. Scanning further
  annotations only extends the registry at its end, so no entry is reassigned or moved.
  Two annotation sequences with the same labels in the same order give the same
  registry.
\<close>

theorem class_registry_first_encounter:
  "build_classes (getAllAnnotations imageList)
     = spec_registry (concat (map (\<lambda>im. map label (annotations im)) imageList))
   \<and> build_classes anns = spec_registry (map label anns)
   \<and> prefix (build_classes anns) (build_classes (anns @ later))
   \<and> (map label anns = map label anns' \<longrightarrow> build_classes anns = build_classes anns')"
proof -
  have "map label (concat (map annotations imageList))
      = concat (map (\<lambda>im. map label (annotations im)) imageList)"
    by (simp add: map_concat comp_def)
  then have "build_classes (getAllAnnotations imageList)
      = spec_registry (concat (map (\<lambda>im. map label (annotations im)) imageList))"
    by (simp add: build_classes_spec getAllAnnotations_def)
  moreover have "map label anns = map label anns' \<longrightarrow> build_classes anns = build_classes anns'"
    by (simp add: build_classes_spec)
  ultimately show ?thesis
    using build_classes_spec [of anns] build_classes_prefix [of anns later] by blast
qed

theorem class_registry_first_encounter_witness:
  "map label street_scene = map label street_scene_boxes
   \<and> build_classes street_scene_boxes = build_classes street_scene
   \<and> build_classes street_scene
       = [(''__ignore__'', -1), (''_background_'', 0), (''car'', 1), (''tree'', 2), (''dog'', 3)]
   \<and> build_classes (getAllAnnotations
        [picture ''a.png'' 6 6 (take 2 street_scene), picture ''b.png'' 6 6 (drop 2 street_scene)])
       = spec_registry [''car'', ''__ignore__'', ''tree'', ''car'', ''_background_'', ''dog'']"
proof -
  have same: "map label street_scene = map label street_scene_boxes"
    by (simp add: street_scene_def street_scene_boxes_def shape_def)
  have reg: "spec_registry (map label street_scene)
      = [(''__ignore__'', -1), (''_background_'', 0), (''car'', 1), (''tree'', 2), (''dog'', 3)]"
    by (simp add: street_scene_def shape_def spec_registry_def seed_classes_def)
  have split: "concat (map (\<lambda>im. map label (annotations im))
        [picture ''a.png'' 6 6 (take 2 street_scene), picture ''b.png'' 6 6 (drop 2 street_scene)])
      = [''car'', ''__ignore__'', ''tree'', ''car'', ''_background_'', ''dog'']"
    by (simp add: street_scene_def shape_def picture_def)
  note reg_thm = class_registry_first_encounter
         [of "[picture ''a.png'' 6 6 (take 2 street_scene), picture ''b.png'' 6 6 (drop 2 street_scene)]"
             street_scene "[]" street_scene_boxes]
  from reg_thm have t1: "build_classes (getAllAnnotations
        [picture ''a.png'' 6 6 (take 2 street_scene), picture ''b.png'' 6 6 (drop 2 street_scene)])
      = spec_registry (concat (map (\<lambda>im. map label (annotations im))
        [picture ''a.png'' 6 6 (take 2 street_scene), picture ''b.png'' 6 6 (drop 2 street_scene)]))"
    by (rule conjunct1)
  from reg_thm have t2: "build_classes street_scene = spec_registry (map label street_scene)"
    by blast
  from reg_thm same have t4: "build_classes street_scene = build_classes street_scene_boxes"
    by blast
  have c2: "build_classes street_scene_boxes = build_classes street_scene"
    using t4 by (rule sym)
  have c3: "build_classes street_scene
      = [(''__ignore__'', -1), (''_background_'', 0), (''car'', 1), (''tree'', 2), (''dog'', 3)]"
    using t2 reg by (rule trans)
  have c4: "build_classes (getAllAnnotations
        [picture ''a.png'' 6 6 (take 2 street_scene), picture ''b.png'' 6 6 (drop 2 street_scene)])
      = spec_registry [''car'', ''__ignore__'', ''tree'', ''car'', ''_background_'', ''dog'']"
    using t1 split by (rule trans [OF _ arg_cong [of _ _ spec_registry]])
  show ?thesis using same c2 c3 c4 by (intro conjI)
qed

subsection \<open>Refusal of rectangle-only scopes\<close>

text \<open>
  C6. When every annotation of the export scope is a rectangle, the COCO export and the
  pixel-map export both return False at once; the output directory is exactly as it was
  before the call: nothing is created, removed or written.
\<close>

theorem rectangles_only_refused:
  assumes "\<forall>a\<in>set (getAllAnnotations imageList). shape_type a = ''rectangle''"
  shows "onExportCOCO stm imageList fs = (ReturnFalse, fs)
       \<and> onExportPixelMap a2l imageList fs = (ReturnFalse, fs)"
  using assms by (simp add: onExportCOCO_def onExportPixelMap_def list_all_iff)

theorem rectangles_only_refused_witness:
  "map shape_type (getAllAnnotations two_boxes) = [''rectangle'', ''rectangle'']
   \<and> onExportCOCO spec_shape_to_mask two_boxes earlier_voc_export = (ReturnFalse, earlier_voc_export)
   \<and> onExportPixelMap spec_annotations_to_label two_boxes earlier_voc_export
        = (ReturnFalse, earlier_voc_export)"
proof -
  have m: "map shape_type (getAllAnnotations two_boxes) = [''rectangle'', ''rectangle'']"
    by (simp add: getAllAnnotations_def two_boxes_def picture_def shape_def)
  have h: "\<forall>a\<in>set (getAllAnnotations two_boxes). shape_type a = ''rectangle''"
    by (simp add: getAllAnnotations_def two_boxes_def picture_def shape_def)
  from rectangles_only_refused [OF h] m show ?thesis by blast
qed

subsection \<open>Format selection of the VOC export\<close>

lemma voc_type_detection:
  "(\<forall>a\<in>set anns. shape_type a = ''rectangle'') \<Longrightarrow> voc_annotation_type anns = ''bbox_detection''"
  by (simp add: voc_annotation_type_def list_all_iff)

lemma voc_type_segmentation:
  "\<not> (\<forall>a\<in>set anns. shape_type a = ''rectangle'') \<Longrightarrow> \<exists>a\<in>set anns. shape_type a = ''polygon''
   \<Longrightarrow> voc_annotation_type anns = ''segmenation''"
  by (simp add: voc_annotation_type_def list_all_iff list_ex_iff)

lemma voc_type_ambiguous:
  "\<not> (\<forall>a\<in>set anns. shape_type a = ''rectangle'') \<Longrightarrow> \<not> (\<exists>a\<in>set anns. shape_type a = ''polygon'')
   \<Longrightarrow> voc_annotation_type anns = []"
  by (simp add: voc_annotation_type_def list_all_iff list_ex_iff)

text \<open>
  C5. If every annotation in the export scope is a rectangle, the VOC export chooses
  detection mode and runs \<^verbatim>\<open>exportDetectionVOC\<close>; otherwise, if at least one annotation
  is a polygon, it chooses segmentation mode and runs \<^verbatim>\<open>exportSegmentationVOC\<close>. Both
  run on the class registry of the scope and on the output directory from which an
  existing \<^verbatim>\<open>VOC\<close> directory has been removed. In particular a scope of two
  rectangles selects detection, and a rectangle followed by a polygon selects
  segmentation.
\<close>

theorem voc_format_selection:
  "((\<forall>a\<in>set (getAllAnnotations imageList). shape_type a = ''rectangle'') \<longrightarrow>
      voc_annotation_type (getAllAnnotations imageList) = ''bbox_detection'' \<and>
      onExportVOC a2l imageList fs
        = finish (exportDetectionVOC imageList (build_classes (getAllAnnotations imageList))
                    (if isdir fs [''VOC''] then rmtree fs [''VOC''] else fs)))
   \<and> (\<not> (\<forall>a\<in>set (getAllAnnotations imageList). shape_type a = ''rectangle'') \<and>
       (\<exists>a\<in>set (getAllAnnotations imageList). shape_type a = ''polygon'') \<longrightarrow>
      voc_annotation_type (getAllAnnotations imageList) = ''segmenation'' \<and>
      onExportVOC a2l imageList fs
        = finish (exportSegmentationVOC a2l imageList (build_classes (getAllAnnotations imageList))
                    (if isdir fs [''VOC''] then rmtree fs [''VOC''] else fs)))
   \<and> voc_annotation_type [shape l1 ''rectangle'' ps1, shape l2 ''rectangle'' ps2] = ''bbox_detection''
   \<and> voc_annotation_type [shape l1 ''rectangle'' ps1, shape l2 ''polygon'' ps2] = ''segmenation''"
proof -
  have a: "voc_annotation_type [shape l1 ''rectangle'' ps1, shape l2 ''rectangle'' ps2] = ''bbox_detection''"
    by (simp add: voc_annotation_type_def shape_def)
  have b: "voc_annotation_type [shape l1 ''rectangle'' ps1, shape l2 ''polygon'' ps2] = ''segmenation''"
    by (simp add: voc_annotation_type_def shape_def)
  show ?thesis
    using a b
    by (auto simp: onExportVOC_def Let_def voc_type_detection voc_type_segmentation)
qed

theorem voc_format_selection_witness:
  "map shape_type (getAllAnnotations two_boxes) = [''rectangle'', ''rectangle'']
   \<and> onExportVOC spec_annotations_to_label two_boxes earlier_voc_export
       = finish (exportDetectionVOC two_boxes (build_classes (getAllAnnotations two_boxes))
                   (if isdir earlier_voc_export [''VOC'']
                    then rmtree earlier_voc_export [''VOC''] else earlier_voc_export))
   \<and> snd (onExportVOC spec_annotations_to_label two_boxes earlier_voc_export)
        [''VOC'', ''Annotations'', ''img1.xml'']
       = Some (File (XmlFile
           \<lparr>xml_filename = ''img1.jpg'', xml_height = 4, xml_width = 4, xml_depth = 3,
            xml_objects =
              [\<lparr>obj_name = ''car'', bnd_xmin = 0, bnd_ymin = 0, bnd_xmax = 1, bnd_ymax = 1\<rparr>,
               \<lparr>obj_name = ''dog'', bnd_xmin = 2, bnd_ymin = 1, bnd_xmax = 3, bnd_ymax = 3\<rparr>]\<rparr>))
   \<and> map shape_type (getAllAnnotations box_and_polygon) = [''rectangle'', ''polygon'']
   \<and> onExportVOC spec_annotations_to_label box_and_polygon earlier_voc_export
       = finish (exportSegmentationVOC spec_annotations_to_label box_and_polygon
                   (build_classes (getAllAnnotations box_and_polygon))
                   (if isdir earlier_voc_export [''VOC'']
                    then rmtree earlier_voc_export [''VOC''] else earlier_voc_export))
   \<and> snd (onExportVOC spec_annotations_to_label box_and_polygon earlier_voc_export)
        [''VOC'', ''SegmentationObjectPNG'', ''img1.png'']
       = Some (File (LabelPng [[1, 1, 0, 0], [1, 2, 2, 2], [0, 0, 2, 2], [0, 0, 0, 2]]))"
proof -
  have m1: "map shape_type (getAllAnnotations two_boxes) = [''rectangle'', ''rectangle'']"
    by (simp add: getAllAnnotations_def two_boxes_def picture_def shape_def)
  have h1: "\<forall>a\<in>set (getAllAnnotations two_boxes). shape_type a = ''rectangle''"
    by (simp add: getAllAnnotations_def two_boxes_def picture_def shape_def)
  have m2: "map shape_type (getAllAnnotations box_and_polygon) = [''rectangle'', ''polygon'']"
    by (simp add: getAllAnnotations_def box_and_polygon_def picture_def shape_def)
  have h2: "\<not> (\<forall>a\<in>set (getAllAnnotations box_and_polygon). shape_type a = ''rectangle'')"
    by (simp add: getAllAnnotations_def box_and_polygon_def picture_def shape_def)
  have h3: "\<exists>a\<in>set (getAllAnnotations box_and_polygon). shape_type a = ''polygon''"
    by (simp add: getAllAnnotations_def box_and_polygon_def picture_def shape_def)
  have e1: "snd (onExportVOC spec_annotations_to_label two_boxes earlier_voc_export)
        [''VOC'', ''Annotations'', ''img1.xml'']
       = Some (File (XmlFile
           \<lparr>xml_filename = ''img1.jpg'', xml_height = 4, xml_width = 4, xml_depth = 3,
            xml_objects =
              [\<lparr>obj_name = ''car'', bnd_xmin = 0, bnd_ymin = 0, bnd_xmax = 1, bnd_ymax = 1\<rparr>,
               \<lparr>obj_name = ''dog'', bnd_xmin = 2, bnd_ymin = 1, bnd_xmax = 3, bnd_ymax = 3\<rparr>]\<rparr>))"
    by code_simp
  have e2: "snd (onExportVOC spec_annotations_to_label box_and_polygon earlier_voc_export)
        [''VOC'', ''SegmentationObjectPNG'', ''img1.png'']
       = Some (File (LabelPng [[1, 1, 0, 0], [1, 2, 2, 2], [0, 0, 2, 2], [0, 0, 0, 2]]))"
    by code_simp
  from voc_format_selection [of two_boxes spec_annotations_to_label earlier_voc_export] h1
  have d: "onExportVOC spec_annotations_to_label two_boxes earlier_voc_export
       = finish (exportDetectionVOC two_boxes (build_classes (getAllAnnotations two_boxes))
                   (if isdir earlier_voc_export [''VOC'']
                    then rmtree earlier_voc_export [''VOC''] else earlier_voc_export))"
    by blast
  from voc_format_selection [of box_and_polygon spec_annotations_to_label earlier_voc_export] h2 h3
  have s: "onExportVOC spec_annotations_to_label box_and_polygon earlier_voc_export
       = finish (exportSegmentationVOC spec_annotations_to_label box_and_polygon
                   (build_classes (getAllAnnotations box_and_polygon))
                   (if isdir earlier_voc_export [''VOC'']
                    then rmtree earlier_voc_export [''VOC''] else earlier_voc_export))"
    by blast
  from m1 d e1 m2 s e2 show ?thesis by (intro conjI)
qed

subsection \<open>Scopes the VOC export has no mode for\<close>

text \<open>
  C2. When the scope is neither all rectangles nor contains a polygon,
  \<^verbatim>\<open>AnnotationType\<close> stays empty and neither export routine runs, so nothing is created.
  The removal of an existing \<^verbatim>\<open>VOC\<close> directory, however, stands before the dispatch
  on \<^verbatim>\<open>AnnotationType\<close> and is executed all the same: the call returns None with the
  earlier VOC output tree deleted. The output directory is therefore not left unchanged.
\<close>

theorem voc_ambiguous_scope_removes_tree:
  assumes "\<not> (\<forall>a\<in>set (getAllAnnotations imageList). shape_type a = ''rectangle'')"
      and "\<not> (\<exists>a\<in>set (getAllAnnotations imageList). shape_type a = ''polygon'')"
  shows "onExportVOC a2l imageList fs
           = (ReturnNone, if isdir fs [''VOC''] then rmtree fs [''VOC''] else fs)"
  using voc_type_ambiguous [OF assms] by (simp add: onExportVOC_def Let_def)

theorem voc_ambiguous_scope_removes_tree_witness:
  "map shape_type (getAllAnnotations circles_only) = [''circle'']
   \<and> earlier_voc_export [''VOC'', ''Annotations'', ''old.xml'']
        = Some (File (XmlFile \<lparr>xml_filename = ''old.jpg'', xml_height = 4, xml_width = 4,
                                xml_depth = 3, xml_objects = []\<rparr>))
   \<and> fst (onExportVOC spec_annotations_to_label circles_only earlier_voc_export) = ReturnNone
   \<and> snd (onExportVOC spec_annotations_to_label circles_only earlier_voc_export)
        [''VOC'', ''Annotations'', ''old.xml''] = None
   \<and> snd (onExportVOC spec_annotations_to_label circles_only earlier_voc_export) [''VOC''] = None"
proof -
  have m: "map shape_type (getAllAnnotations circles_only) = [''circle'']"
    by (simp add: getAllAnnotations_def circles_only_def picture_def shape_def)
  have h1: "\<not> (\<forall>a\<in>set (getAllAnnotations circles_only). shape_type a = ''rectangle'')"
    by (simp add: getAllAnnotations_def circles_only_def picture_def shape_def)
  have h2: "\<not> (\<exists>a\<in>set (getAllAnnotations circles_only). shape_type a = ''polygon'')"
    by (simp add: getAllAnnotations_def circles_only_def picture_def shape_def)
  have d: "isdir earlier_voc_export [''VOC'']"
    by (simp add: isdir_def earlier_voc_export_def)
  have old: "earlier_voc_export [''VOC'', ''Annotations'', ''old.xml'']
        = Some (File (XmlFile \<lparr>xml_filename = ''old.jpg'', xml_height = 4, xml_width = 4,
                                xml_depth = 3, xml_objects = []\<rparr>))"
    by (simp add: earlier_voc_export_def)
  have r: "onExportVOC spec_annotations_to_label circles_only earlier_voc_export
      = (ReturnNone, rmtree earlier_voc_export [''VOC''])"
    using voc_ambiguous_scope_removes_tree [OF h1 h2, of spec_annotations_to_label earlier_voc_export] d
    by simp
  show ?thesis using m old by (simp add: r rmtree_def)
qed

subsection \<open>Scopes without annotations\<close>













subsection \<open>Rectangles given by reversed corners\<close>

lemma sorted2_commute: "sorted2 a b = sorted2 b a"
  by (auto simp: sorted2_def)














subsection \<open>The COCO round trip on a single rectangle\<close>

text \<open>
  C8, as the code has it. For the synthetic 100 x 100 image with one rectangle labelled
  "car" at (10,10)-(50,50), the registry built from the scope is exactly
  \<^verbatim>\<open>{"__ignore__": -1, "_background_": 0, "car": 1}\<close>. The scope consists of
  rectangles only, so the COCO export returns False before it builds a registry or
  touches the output directory: no COCO annotation, hence no bbox and no area, is
  produced for this image.
\<close>

theorem single_rectangle_registry_and_refusal:
  "build_classes (getAllAnnotations synthetic_car)
     = [(''__ignore__'', -1), (''_background_'', 0), (''car'', 1)]
   \<and> onExportCOCO stm synthetic_car fs = (ReturnFalse, fs)"
proof -
  have "build_classes (getAllAnnotations synthetic_car)
     = [(''__ignore__'', -1), (''_background_'', 0), (''car'', 1)]"
    by code_simp
  moreover have "onExportCOCO stm synthetic_car fs = (ReturnFalse, fs)"
    by (simp add: onExportCOCO_def synthetic_car_def picture_def shape_def getAllAnnotations_def)
  ultimately show ?thesis by (rule conjI)
qed

text \<open>
  The claim as stated fails on this input: the export ends with False and there is no
  \<^verbatim>\<open>COCO/annotations.json\<close> that could hold an annotation with bbox [10, 10, 40, 40]
  and area 1600.
\<close>

theorem single_rectangle_no_coco_annotation:
  "fst (onExportCOCO spec_shape_to_mask synthetic_car empty_output_dir) = ReturnFalse
   \<and> snd (onExportCOCO spec_shape_to_mask synthetic_car empty_output_dir)
         [''COCO'', ''annotations.json''] = None"
  by code_simp

subsection \<open>Dictionaries and masks\<close>

lemma dict_get_set: "dict_get (dict_set d k v) k' = (if k' = k then Some v else dict_get d k')"
  by (induction d) (auto simp: dict_get_def)

lemma map_fst_dict_set:
  "map fst (dict_set d k v) = (if k \<in> fst ` set d then map fst d else map fst d @ [k])"
  by (induction d) (auto simp: rev_image_eqI)

lemma dict_keys_set: "set (dict_keys (dict_set d k v)) = insert k (set (dict_keys d))"
  by (auto simp: dict_keys_def map_fst_dict_set)


lemma dict_get_mem: "dict_get d k = Some v \<Longrightarrow> (k, v) \<in> set d"
  by (simp add: dict_get_def map_of_SomeD)

lemma dict_keys_append: "set (dict_keys (dict_append d k v)) = insert k (set (dict_keys d))"
  by (simp add: dict_append_def dict_keys_set)

lemma has_shape_or: "has_shape h w a \<Longrightarrow> has_shape h w b \<Longrightarrow> has_shape h w (mask_or a b)"
  by (auto simp: has_shape_def mask_or_def list_all_iff set_zip)

lemma pixel_or:
  assumes "has_shape h w a" "has_shape h w b"
  shows "pixel (mask_or a b) x y \<longleftrightarrow> pixel a x y \<or> pixel b x y"
proof (cases "y < h")
  case False
  then show ?thesis using assms by (simp add: pixel_def has_shape_def mask_or_def)
next
  case True
  then have la: "length (a ! y) = w" and lb: "length (b ! y) = w"
    using assms by (auto simp: has_shape_def list_all_iff)
  show ?thesis
    using True assms la lb
    by (cases "x < w") (auto simp: pixel_def has_shape_def mask_or_def)
qed

lemma has_shape_foldl_or:
  "has_shape h w m \<Longrightarrow> \<forall>m'\<in>set ms. has_shape h w m' \<Longrightarrow> has_shape h w (foldl mask_or m ms)"
  by (induction ms arbitrary: m) (auto simp: has_shape_or)

lemma pixel_foldl_or:
  "has_shape h w m \<Longrightarrow> \<forall>m'\<in>set ms. has_shape h w m' \<Longrightarrow>
   pixel (foldl mask_or m ms) x y \<longleftrightarrow> (\<exists>m'\<in>set (m # ms). pixel m' x y)"
proof (induction ms arbitrary: m)
  case Nil
  then show ?case by simp
next
  case (Cons a ms)
  have "has_shape h w (mask_or m a)" using Cons.prems by (simp add: has_shape_or)
  from Cons.IH [OF this] Cons.prems show ?case
    by (auto simp: pixel_or [of h w m a])
qed

lemma or_into_Some: "or_into (Some m) ms = Some (foldl mask_or m ms)"
  by (induction ms arbitrary: m) (auto simp: or_into_def)

lemma or_into_None: "or_into None ms = (case ms of [] \<Rightarrow> None | m # ms' \<Rightarrow> Some (foldl mask_or m ms'))"
  by (cases ms) (auto simp: or_into_def or_into_Some [unfolded or_into_def])

lemma or_into_append: "or_into start (xs @ ys) = or_into (or_into start xs) ys"
  by (simp add: or_into_def)

lemma aggregate_masks:
  "aggregate stm im anns s = Inr agg \<Longrightarrow>
   dict_get (masks agg) k
     = or_into (dict_get (masks s) k)
         (constituents stm (img_height im, img_width im) (uuid_clock s) anns k)"
proof (induction anns arbitrary: s)
  case Nil
  then show ?case by (simp add: or_into_def)
next
  case (Cons a rest)
  from Cons.prems obtain msk where m: "stm (img_height im, img_width im) (points a) (shape_type a) = Inr msk"
    by (auto split: sum.splits)
  from Cons.prems m obtain pts where p: "segmentation_points a = Inr pts"
    by (auto split: sum.splits prod.splits simp: Let_def)
  obtain key clk' where ak: "assign_key (uuid_clock s) a = (key, clk')"
    by (cases "assign_key (uuid_clock s) a")
  let ?masks' = "case dict_get (masks s) key of
                   Some m \<Rightarrow> dict_set (masks s) key (mask_or m msk)
                 | None \<Rightarrow> dict_set (masks s) key msk"
  let ?s' = "\<lparr>masks = ?masks', segmentations = dict_append (segmentations s) key pts, uuid_clock = clk'\<rparr>"
  from Cons.prems m p ak have rest: "aggregate stm im rest ?s' = Inr agg"
    by simp
  have step: "dict_get ?masks' k = or_into (dict_get (masks s) k) (if key = k then [msk] else [])"
    by (auto simp: dict_get_set or_into_def split: option.splits)
  from Cons.IH [OF rest] have "dict_get (masks agg) k
      = or_into (dict_get ?masks' k) (constituents stm (img_height im, img_width im) clk' rest k)"
    by simp
  then show ?case
    using m ak by (simp add: step or_into_append [symmetric])
qed

subsection \<open>The aggregation loop of the COCO export\<close>




lemma aggregate_keys:
  "aggregate stm im anns s = Inr agg \<Longrightarrow>
   set (dict_keys (masks agg)) = set (dict_keys (masks s)) \<union> set (instance_keys (uuid_clock s) anns)
   \<and> set (dict_keys (segmentations agg))
       = set (dict_keys (segmentations s)) \<union> set (instance_keys (uuid_clock s) anns)"
proof (induction anns arbitrary: s)
  case Nil
  then show ?case by simp
next
  case (Cons a rest)
  from Cons.prems obtain msk where m: "stm (img_height im, img_width im) (points a) (shape_type a) = Inr msk"
    by (auto split: sum.splits)
  from Cons.prems m obtain pts where p: "segmentation_points a = Inr pts"
    by (auto split: sum.splits prod.splits simp: Let_def)
  obtain key clk' where ak: "assign_key (uuid_clock s) a = (key, clk')"
    by (cases "assign_key (uuid_clock s) a")
  let ?masks' = "case dict_get (masks s) key of
                   Some m \<Rightarrow> dict_set (masks s) key (mask_or m msk)
                 | None \<Rightarrow> dict_set (masks s) key msk"
  let ?s' = "\<lparr>masks = ?masks', segmentations = dict_append (segmentations s) key pts, uuid_clock = clk'\<rparr>"
  from Cons.prems m p ak have rest: "aggregate stm im rest ?s' = Inr agg"
    by simp
  have k1: "set (dict_keys ?masks') = insert key (set (dict_keys (masks s)))"
    by (simp add: dict_keys_set split: option.splits)
  from Cons.IH [OF rest] k1 ak show ?case
    by (auto simp: dict_keys_append)
qed







subsection \<open>The per-image step and the image loop of the COCO export\<close>

lemma step_props:
  assumes "coco_image_step stm classes cn i im s = (None, s')"
  shows "written_json (out_tree s') = Some (data s')
       \<and> coco_categories (data s') = coco_categories (data s)
       \<and> map img_id (coco_images (data s')) = map img_id (coco_images (data s)) @ [i]"
  using assms
  by (auto simp: coco_image_step_def Let_def written_json_def write_file_def
           split: sum.splits prod.splits)

lemma loop_props:
  assumes "coco_images_loop stm classes cn i ims s = (None, s')"
  shows "coco_categories (data s') = coco_categories (data s)
       \<and> map img_id (coco_images (data s')) = map img_id (coco_images (data s)) @ [i ..< i + length ims]
       \<and> (if ims = [] then s' = s else written_json (out_tree s') = Some (data s'))"
  using assms
proof (induction ims arbitrary: i s)
  case Nil
  then show ?case by simp
next
  case (Cons im ims)
  from Cons.prems obtain s1 where step: "coco_image_step stm classes cn i im s = (None, s1)"
    and rest: "coco_images_loop stm classes cn (Suc i) ims s1 = (None, s')"
    by (auto split: prod.splits option.splits)
  note p = step_props [OF step]
  note q = Cons.IH [OF rest]
  have "[i ..< i + length (im # ims)] = i # [Suc i ..< Suc i + length ims]"
    using upt_conv_Cons [of i "i + length (im # ims)"] by simp
  with p q show ?case by (cases "ims = []") auto
qed






subsection \<open>The categories section of the COCO document\<close>

text \<open>
  C1, as the code has it. \<^verbatim>\<open>data["categories"]\<close> is created as an empty list and no
  statement of \<^verbatim>\<open>onExportCOCO\<close> appends to it. Whenever the export of a non-empty
  image list completes, \<^verbatim>\<open>COCO/annotations.json\<close> holds one image entry per image
  and an empty \<^verbatim>\<open>categories\<close> array, whatever labels the registry holds.
\<close>

theorem coco_categories_never_filled:
  assumes "onExportCOCO stm imageList fs = (ReturnNone, fs')" and "imageList \<noteq> []"
  shows "\<exists>d. written_json fs' = Some d \<and> coco_categories d = []
             \<and> map img_id (coco_images d) = [0 ..< length imageList]"
proof -
  let ?anns = "getAllAnnotations imageList"
  let ?classes = "build_classes ?anns"
  let ?fs1 = "if isdir fs [''COCO''] then rmtree fs [''COCO''] else fs"
  let ?dirs = "[[''COCO''], [''COCO'', ''JPEGImages''], [''COCO'', ''Visualization'']]"
  from assms(1) have nr: "\<not> list_all (\<lambda>a. shape_type a = ''rectangle'') ?anns"
    by (auto simp: onExportCOCO_def)
  obtain r fs2 where mk: "makedirs_all ?fs1 ?dirs = (r, fs2)"
    by (cases "makedirs_all ?fs1 ?dirs")
  with assms(1) nr have r: "r = None"
    by (cases r) (auto simp: onExportCOCO_def Let_def)
  let ?s0 = "\<lparr>out_tree = fs2,
              data = \<lparr>coco_images = [], coco_annotations = [], coco_categories = []\<rparr>,
              clock = 0\<rparr>"
  obtain e s where lp: "coco_images_loop stm ?classes (class_names_of ?classes) 0 imageList ?s0 = (e, s)"
    by (cases "coco_images_loop stm ?classes (class_names_of ?classes) 0 imageList ?s0")
  with assms(1) nr mk r have e: "e = None" and fs': "fs' = out_tree s"
    by (cases e; auto simp: onExportCOCO_def Let_def)+
  from loop_props [OF lp [unfolded e]] assms(2) fs' show ?thesis by simp
qed


theorem coco_categories_never_filled_witness:
  "fst (onExportCOCO spec_shape_to_mask car_and_dog empty_output_dir) = ReturnNone
   \<and> build_classes (getAllAnnotations car_and_dog)
       = [(''__ignore__'', -1), (''_background_'', 0), (''car'', 1), (''dog'', 2)]
   \<and> written_json (snd (onExportCOCO spec_shape_to_mask car_and_dog empty_output_dir))
       = Some \<lparr>coco_images =
                  [\<lparr>file_name = ''JPEGImages/img1.jpg'', height = 4, width = 4, img_id = 0\<rparr>],
                coco_annotations =
                  [\<lparr>ann_id = 0, image_id = 0, category_id = 1,
                    segmentation = [[0, 0, 2, 0, 2, 2, 0, 2]], area = 4, bbox = [0, 0, 2, 2]\<rparr>,
                   \<lparr>ann_id = 1, image_id = 0, category_id = 2,
                    segmentation = [[3, 3, 3, 2]], area = 3, bbox = [2, 2, 2, 2]\<rparr>],
                coco_categories = []\<rparr>
   \<and> map_option coco_categories
        (written_json (snd (onExportCOCO spec_shape_to_mask car_and_dog empty_output_dir)))
       = Some []"
proof -
  let ?r = "onExportCOCO spec_shape_to_mask car_and_dog empty_output_dir"
  have e1: "fst ?r = ReturnNone" by code_simp
  have e2: "build_classes (getAllAnnotations car_and_dog)
       = [(''__ignore__'', -1), (''_background_'', 0), (''car'', 1), (''dog'', 2)]"
    by code_simp
  have e3: "written_json (snd ?r)
       = Some \<lparr>coco_images =
                  [\<lparr>file_name = ''JPEGImages/img1.jpg'', height = 4, width = 4, img_id = 0\<rparr>],
                coco_annotations =
                  [\<lparr>ann_id = 0, image_id = 0, category_id = 1,
                    segmentation = [[0, 0, 2, 0, 2, 2, 0, 2]], area = 4, bbox = [0, 0, 2, 2]\<rparr>,
                   \<lparr>ann_id = 1, image_id = 0, category_id = 2,
                    segmentation = [[3, 3, 3, 2]], area = 3, bbox = [2, 2, 2, 2]\<rparr>],
                coco_categories = []\<rparr>"
    by code_simp
  have eq: "?r = (ReturnNone, snd ?r)" using e1 by (metis prod.collapse)
  have ne: "car_and_dog \<noteq> []" by (simp add: car_and_dog_def)
  from coco_categories_never_filled [OF eq ne]
  have e4: "map_option coco_categories (written_json (snd ?r)) = Some []" by auto
  from e1 e2 e3 e4 show ?thesis by (intro conjI)
qed

subsection \<open>Images without a retained instance\<close>





subsection \<open>Instance masks\<close>

lemma has_shape_grid: "has_shape h w (grid h w f)"
  by (simp add: has_shape_def grid_def list_all_iff)

lemma spec_shape_to_mask_shape:
  "spec_shape_to_mask (h, w) ps st = Inr m \<Longrightarrow> has_shape h w m"
  by (auto simp: spec_shape_to_mask_def has_shape_grid split: if_splits list.splits)

lemma constituents_from_shapes:
  "c \<in> set (constituents stm shp clk anns k) \<Longrightarrow>
   \<exists>a\<in>set anns. stm shp (points a) (shape_type a) = Inr c"
proof (induction anns arbitrary: clk)
  case Nil
  then show ?case by simp
next
  case (Cons a rest)
  from Cons.prems consider
      (here) "c \<in> set (case stm shp (points a) (shape_type a) of Inr m \<Rightarrow> [m] | Inl e \<Rightarrow> [])"
    | (later) "c \<in> set (constituents stm shp (snd (assign_key clk a)) rest k)"
    by (cases "fst (assign_key clk a) = k") auto
  then show ?case
  proof cases
    case here
    then show ?thesis by (cases "stm shp (points a) (shape_type a)") auto
  next
    case later
    from Cons.IH [OF this] show ?thesis by auto
  qed
qed

lemma zero_ignored_shape:
  "has_shape h w cls \<Longrightarrow> has_shape h w ins \<Longrightarrow> has_shape h w (zero_ignored cls ins)"
  by (auto simp: has_shape_def zero_ignored_def list_all_iff set_zip)

lemma zero_ignored_cell:
  assumes "has_shape h w cls" "has_shape h w ins" "x < w" "y < h"
  shows "zero_ignored cls ins ! y ! x = (if cls ! y ! x = -1 then 0 else ins ! y ! x)"
proof -
  from assms have "length (cls ! y) = w" "length (ins ! y) = w"
    by (auto simp: has_shape_def list_all_iff)
  with assms show ?thesis
    by (simp add: zero_ignored_def has_shape_def)
qed

lemma segmentation_image_instance_png:
  assumes "a2l (img p) (annotations p) classes = Inr (cls, ins0)"
  shows "snd (segmentation_image a2l classes cn p fs)
           [''VOC'', ''SegmentationObjectPNG'', base_of (imagename p) @ ''.png'']
         = Some (File (LabelPng (zero_ignored cls ins0)))"
  using assms
  by (simp add: segmentation_image_def Let_def write_file_def split: list.splits)

text \<open>
  C3, as the code has it. In the COCO export the mask kept for an instance key is the
  pixel-wise OR of the masks of all shapes of the image with that key, in stored order;
  nothing is subtracted from it, so a pixel that an \<^verbatim>\<open>__ignore__\<close> shape covers stays
  set (instances labelled \<^verbatim>\<open>__ignore__\<close> are only skipped when annotations are
  emitted). In the VOC segmentation export the instance raster written to
  \<^verbatim>\<open>SegmentationObjectPNG\<close> is the one returned by \<^verbatim>\<open>utils.annotations_to_label\<close>
  with every pixel whose class-raster value is -1 set to 0 and all other pixels
  unchanged.
\<close>

theorem instance_masks_as_built:
  "(aggregate stm im anns \<lparr>masks = [], segmentations = [], uuid_clock = clk\<rparr> = Inr agg \<and>
    (\<forall>a\<in>set anns. \<forall>m. stm (img_height im, img_width im) (points a) (shape_type a) = Inr m
         \<longrightarrow> has_shape (img_height im) (img_width im) m)
    \<longrightarrow> set (dict_keys (masks agg)) = set (instance_keys clk anns)
      \<and> (\<forall>k. dict_get (masks agg) k
              = (case constituents stm (img_height im, img_width im) clk anns k of
                   [] \<Rightarrow> None
                 | c # cs \<Rightarrow> Some (foldl mask_or c cs)))
      \<and> (\<forall>k m x y. dict_get (masks agg) k = Some m \<longrightarrow>
             (pixel m x y \<longleftrightarrow>
                (\<exists>c\<in>set (constituents stm (img_height im, img_width im) clk anns k). pixel c x y))))
   \<and> (a2l (img p) (annotations p) classes = Inr (cls, ins0) \<and>
      has_shape h w cls \<and> has_shape h w ins0
      \<longrightarrow> snd (segmentation_image a2l classes cn p fs)
            [''VOC'', ''SegmentationObjectPNG'', base_of (imagename p) @ ''.png'']
            = Some (File (LabelPng (zero_ignored cls ins0)))
        \<and> has_shape h w (zero_ignored cls ins0)
        \<and> (\<forall>x<w. \<forall>y<h. zero_ignored cls ins0 ! y ! x
                           = (if cls ! y ! x = -1 then 0 else ins0 ! y ! x)))"
proof (intro conjI impI)
  let ?shp = "(img_height im, img_width im)"
  let ?s0 = "\<lparr>masks = [], segmentations = [], uuid_clock = clk\<rparr>"
  assume a: "aggregate stm im anns ?s0 = Inr agg \<and>
    (\<forall>a\<in>set anns. \<forall>m. stm ?shp (points a) (shape_type a) = Inr m
         \<longrightarrow> has_shape (img_height im) (img_width im) m)"
  then have agg: "aggregate stm im anns ?s0 = Inr agg" by blast
  from aggregate_keys [OF agg]
  show "set (dict_keys (masks agg)) = set (instance_keys clk anns)"
    by (simp add: dict_keys_def)
  have get: "dict_get (masks agg) k
              = (case constituents stm ?shp clk anns k of
                   [] \<Rightarrow> None
                 | c # cs \<Rightarrow> Some (foldl mask_or c cs))" for k
    using aggregate_masks [OF agg, of k] by (simp add: or_into_None dict_get_def)
  then show "\<forall>k. dict_get (masks agg) k
              = (case constituents stm ?shp clk anns k of
                   [] \<Rightarrow> None
                 | c # cs \<Rightarrow> Some (foldl mask_or c cs))" by blast
  show "\<forall>k m x y. dict_get (masks agg) k = Some m \<longrightarrow>
             (pixel m x y \<longleftrightarrow> (\<exists>c\<in>set (constituents stm ?shp clk anns k). pixel c x y))"
  proof (intro allI impI)
    fix k m x y
    assume "dict_get (masks agg) k = Some m"
    with get [of k] obtain c cs where cs: "constituents stm ?shp clk anns k = c # cs"
      and m: "m = foldl mask_or c cs"
      by (cases "constituents stm ?shp clk anns k") auto
    have shaped: "\<forall>c'\<in>set (c # cs). has_shape (img_height im) (img_width im) c'"
    proof
      fix c' assume "c' \<in> set (c # cs)"
      then have "c' \<in> set (constituents stm ?shp clk anns k)" by (simp add: cs)
      from constituents_from_shapes [OF this] a
      show "has_shape (img_height im) (img_width im) c'" by blast
    qed
    then have "pixel (foldl mask_or c cs) x y \<longleftrightarrow> (\<exists>c'\<in>set (c # cs). pixel c' x y)"
      using pixel_foldl_or [of "img_height im" "img_width im" c cs x y] by simp
    then show "pixel m x y \<longleftrightarrow> (\<exists>c\<in>set (constituents stm ?shp clk anns k). pixel c x y)"
      by (simp add: m cs)
  qed
next
  assume b: "a2l (img p) (annotations p) classes = Inr (cls, ins0) \<and>
      has_shape h w cls \<and> has_shape h w ins0"
  then show "snd (segmentation_image a2l classes cn p fs)
            [''VOC'', ''SegmentationObjectPNG'', base_of (imagename p) @ ''.png'']
            = Some (File (LabelPng (zero_ignored cls ins0)))"
    by (simp add: segmentation_image_instance_png)
  from b show "has_shape h w (zero_ignored cls ins0)"
    by (simp add: zero_ignored_shape)
  from b show "\<forall>x<w. \<forall>y<h. zero_ignored cls ins0 ! y ! x
                           = (if cls ! y ! x = -1 then 0 else ins0 ! y ! x)"
    using zero_ignored_cell [of h w cls ins0] by blast
qed


theorem instance_masks_as_built_witness:
  "aggregate spec_shape_to_mask (img car_under_ignore) (annotations car_under_ignore)
      \<lparr>masks = [], segmentations = [], uuid_clock = 0\<rparr>
     = Inr \<lparr>masks = [((''car'', Uuid1 0), [[True, True], [True, False]]),
                     ((''__ignore__'', Uuid1 1), [[True, False], [False, False]])],
            segmentations = [((''car'', Uuid1 0), [[0, 0, 1, 0]]),
                             ((''__ignore__'', Uuid1 1), [[0, 0, 0, 0, 0, 0, 0, 0]])],
            uuid_clock = 2\<rparr>
   \<and> constituents spec_shape_to_mask (2, 2) 0 (annotations car_under_ignore) (''car'', Uuid1 0)
     = [[[True, True], [True, False]]]
   \<and> pixel [[True, True], [True, False]] 0 0
   \<and> covered_by_ignored spec_shape_to_mask (build_classes (getAllAnnotations [car_under_ignore]))
        (2, 2) (annotations car_under_ignore) 0 0
   \<and> spec_annotations_to_label (img car_under_ignore) (annotations car_under_ignore)
        (build_classes (getAllAnnotations [car_under_ignore]))
     = Inr ([[-1, 1], [1, 0]], [[2, 1], [1, 0]])
   \<and> snd (segmentation_image spec_annotations_to_label
             (build_classes (getAllAnnotations [car_under_ignore]))
             (class_names_of (build_classes (getAllAnnotations [car_under_ignore])))
             car_under_ignore empty_output_dir)
        [''VOC'', ''SegmentationObjectPNG'', ''img1.png'']
     = Some (File (LabelPng [[0, 1], [1, 0]]))"
proof -
  let ?im = "img car_under_ignore"
  let ?anns = "annotations car_under_ignore"
  let ?classes = "build_classes (getAllAnnotations [car_under_ignore])"
  let ?agg = "\<lparr>masks = [((''car'', Uuid1 0), [[True, True], [True, False]]),
                     ((''__ignore__'', Uuid1 1), [[True, False], [False, False]])],
            segmentations = [((''car'', Uuid1 0), [[0, 0, 1, 0]]),
                             ((''__ignore__'', Uuid1 1), [[0, 0, 0, 0, 0, 0, 0, 0]])],
            uuid_clock = 2\<rparr>"
  have dims: "img_height ?im = 2" "img_width ?im = 2"
    by (simp_all add: car_under_ignore_def picture_def)
  have base: "base_of (imagename car_under_ignore) @ ''.png'' = ''img1.png''"
    by code_simp
  have agg: "aggregate spec_shape_to_mask ?im ?anns
      \<lparr>masks = [], segmentations = [], uuid_clock = 0\<rparr> = Inr ?agg"
    by code_simp
  have shaped: "\<forall>a\<in>set ?anns. \<forall>m.
      spec_shape_to_mask (img_height ?im, img_width ?im) (points a) (shape_type a) = Inr m
        \<longrightarrow> has_shape (img_height ?im) (img_width ?im) m"
    by (auto dest: spec_shape_to_mask_shape)
  have cons: "constituents spec_shape_to_mask (2, 2) 0 ?anns (''car'', Uuid1 0)
     = [[[True, True], [True, False]]]"
    by code_simp
  have px: "pixel [[True, True], [True, False]] 0 0"
    by (simp add: pixel_def)
  have cov: "covered_by_ignored spec_shape_to_mask ?classes (2, 2) ?anns 0 0"
    by code_simp
  have lab: "spec_annotations_to_label ?im ?anns ?classes = Inr ([[-1, 1], [1, 0]], [[2, 1], [1, 0]])"
    by code_simp
  have sh: "has_shape 2 2 [[-1, 1], [1, 0 :: int]]" "has_shape 2 2 [[2, 1], [1, 0 :: int]]"
    by (simp_all add: has_shape_def)
  have zi: "zero_ignored [[-1, 1], [1, 0]] [[2, 1], [1, 0]] = [[0, 1], [1, 0]]"
    by (simp add: zero_ignored_def)
  note t = instance_masks_as_built
             [where stm = spec_shape_to_mask and im = ?im and anns = ?anns and clk = 0
                and agg = ?agg and ?a2l = spec_annotations_to_label and p = car_under_ignore
                and classes = ?classes and cls = "[[-1, 1], [1, 0]]" and ?ins0.0 = "[[2, 1], [1, 0]]"
                and h = 2 and w = 2 and cn = "class_names_of ?classes" and fs = empty_output_dir]
  from t agg shaped have "\<forall>k m x y. dict_get (masks ?agg) k = Some m \<longrightarrow>
      (pixel m x y \<longleftrightarrow>
         (\<exists>c\<in>set (constituents spec_shape_to_mask (img_height ?im, img_width ?im) 0 ?anns k).
             pixel c x y))"
    by blast
  from t lab sh have png: "snd (segmentation_image spec_annotations_to_label ?classes
             (class_names_of ?classes) car_under_ignore empty_output_dir)
        [''VOC'', ''SegmentationObjectPNG'', base_of (imagename car_under_ignore) @ ''.png'']
     = Some (File (LabelPng (zero_ignored [[-1, 1], [1, 0]] [[2, 1], [1, 0]])))"
    by blast
  from agg cons px cov lab png [unfolded base zi] show ?thesis by (intro conjI)
qed

text \<open>
  The instance union law fails for the COCO masks: a car drawn as a circle and an
  \<^verbatim>\<open>__ignore__\<close> rectangle on its pixel (0, 0). The mask aggregated for the car keeps
  that pixel and the emitted annotation has area 3; the mask of the union law has area 2.
\<close>

theorem coco_mask_keeps_ignored_pixel:
  "aggregate spec_shape_to_mask (img car_under_ignore) (annotations car_under_ignore)
      \<lparr>masks = [], segmentations = [], uuid_clock = 0\<rparr>
     = Inr \<lparr>masks = [((''car'', Uuid1 0), [[True, True], [True, False]]),
                     ((''__ignore__'', Uuid1 1), [[True, False], [False, False]])],
            segmentations = [((''car'', Uuid1 0), [[0, 0, 1, 0]]),
                             ((''__ignore__'', Uuid1 1), [[0, 0, 0, 0, 0, 0, 0, 0]])],
            uuid_clock = 2\<rparr>
   \<and> union_law_mask spec_shape_to_mask (build_classes (getAllAnnotations [car_under_ignore]))
        (img car_under_ignore) 0 (annotations car_under_ignore) (''car'', Uuid1 0)
     = [[False, True], [True, False]]
   \<and> map_option (\<lambda>d. map area (coco_annotations d))
        (written_json (snd (onExportCOCO spec_shape_to_mask [car_under_ignore] empty_output_dir)))
     = Some [3]
   \<and> cocomask_area
        (union_law_mask spec_shape_to_mask (build_classes (getAllAnnotations [car_under_ignore]))
           (img car_under_ignore) 0 (annotations car_under_ignore) (''car'', Uuid1 0))
     = 2"
  by code_simp

end
